theory Spec2Isabelle
  imports Main "HOL-Library.Word"
begin

section \<open>Strings, bytes, hashes and addresses\<close>

text \<open>
  Go strings are byte sequences and become \<open>string\<close>. \<open>strings.ToLower\<close> and
  \<open>strings.EqualFold\<close> are modelled on the ASCII letters only. For \<open>EqualFold\<close> this
  is what Go does whenever one side is the hexadecimal rendering of an address, which
  is the case at every use. For \<open>ToLower\<close> it is what Go does on a text of ASCII
  bytes; on other texts Go lowers Unicode letters as well (the capital I with a dot
  becomes \<open>i\<close>), which the model does not. The transaction types that
  \<open>IsValidSwapType\<close> accepts are ASCII words, and the theorems below that go through
  \<open>ToLower\<close> are stated for such a type.
\<close>

type_synonym bytes = "8 word list"

definition toLowerChar :: "char \<Rightarrow> char" where
  "toLowerChar c =
     (case map_of (zip ''ABCDEFGHIJKLMNOPQRSTUVWXYZ'' ''abcdefghijklmnopqrstuvwxyz'') c of
        Some d \<Rightarrow> d
      | None \<Rightarrow> c)"

definition ToLower :: "string \<Rightarrow> string" where
  "ToLower s = map toLowerChar s"

definition EqualFold :: "string \<Rightarrow> string \<Rightarrow> bool" where
  "EqualFold s t = (ToLower s = ToLower t)"

definition HasPrefix :: "string \<Rightarrow> string \<Rightarrow> bool" where
  "HasPrefix s pre = (take (length pre) s = pre)"

fun Contains :: "string \<Rightarrow> string \<Rightarrow> bool" where
  "Contains [] sub = (sub = [])"
| "Contains (c # s) sub = (HasPrefix (c # s) sub \<or> Contains s sub)"

definition hexDigit :: "nat \<Rightarrow> char" where
  "hexDigit n = ''0123456789abcdef'' ! (n mod 16)"

definition encodeHex :: "bytes \<Rightarrow> string" where
  "encodeHex bs = concat (map (\<lambda>b. [hexDigit (unat b div 16), hexDigit (unat b mod 16)]) bs)"

text \<open>\<open>fmt.Sprintf("%d", n)\<close> for a non-negative \<open>n\<close>: the decimal digits.\<close>

fun Sprintf_d :: "nat \<Rightarrow> string" where
  "Sprintf_d n = (if n < 10 then [hexDigit n] else Sprintf_d (n div 10) @ [hexDigit (n mod 10)])"

declare Sprintf_d.simps [simp del]

text \<open>
  A \<open>common.Hash\<close> is a 32-byte array, read here as the 256-bit number it spells in
  big-endian order, so that the topic constants are the literals of the source.
  \<open>Bytes\<close> gives its 32 bytes back. A \<open>common.Address\<close> is a 20-byte array, kept as
  the list of its bytes. \<open>GetData\<close> and \<open>BytesToAddress\<close> are the helpers of the
  \<open>common\<close> package: the first cuts \<open>size\<close> bytes at \<open>start\<close> and pads with zeros
  on the right, the second keeps the last 20 bytes and pads with zeros on the left.
  \<open>Hex\<close> renders an address as \<open>0x\<close> and 40 digits; the mixed-case checksum of
  the library is left out, since every use goes through \<open>EqualFold\<close>.
\<close>

definition Bytes :: "256 word \<Rightarrow> bytes" where
  "Bytes h = map (\<lambda>i. ucast (drop_bit (8 * (31 - i)) h)) [0..<32]"

definition GetData :: "bytes \<Rightarrow> nat \<Rightarrow> nat \<Rightarrow> bytes" where
  "GetData data start sz =
     (let len = length data;
          st = (if start > len then len else start);
          en = (if st + sz > len then len else st + sz);
          sl = take (en - st) (drop st data)
      in sl @ replicate (sz - length sl) 0)"

definition BytesToAddress :: "bytes \<Rightarrow> bytes" where
  "BytesToAddress b =
     (let b' = (if length b > 20 then drop (length b - 20) b else b)
      in replicate (20 - length b') 0 @ b')"

definition Hex :: "bytes \<Rightarrow> string" where
  "Hex a = ''0x'' @ encodeHex a"

definition HashHex :: "256 word \<Rightarrow> string" where
  "HashHex h = ''0x'' @ encodeHex (Bytes h)"

section \<open>Constants of the scanner\<close>

definition transferFuncHash :: bytes where
  "transferFuncHash = [0xa9, 0x05, 0x9c, 0xbb]"

definition transferFromFuncHash :: bytes where
  "transferFromFuncHash = [0x23, 0xb8, 0x72, 0xdd]"

definition addressSwapoutFuncHash :: bytes where
  "addressSwapoutFuncHash = [0x62, 0x8d, 0x6c, 0xba]"

definition stringSwapoutFuncHash :: bytes where
  "stringSwapoutFuncHash = [0xad, 0x54, 0x05, 0x6d]"

definition transferLogTopic :: "256 word" where
  "transferLogTopic = 0xddf252ad1be2c89b69c2b068fc378daa952ba7f163c4a11628f55a4df523b3ef"

definition addressSwapoutLogTopic :: "256 word" where
  "addressSwapoutLogTopic = 0x6b616089d04950dc06c45c6dd787d657980543f89651aec47924752c7d16c888"

definition stringSwapoutLogTopic :: "256 word" where
  "stringSwapoutLogTopic = 0x9c92ad817e5474d30a4378deface765150479363a897b0590fbb12ae9d89396b"

definition routerAnySwapOutTopic :: "256 word" where
  "routerAnySwapOutTopic = 0x97116cf6cd4f6412bb47914d6db18da9e16ab2142f543b86e207c24fbd16b23a"

definition routerAnySwapTradeTokensForTokensTopic :: "256 word" where
  "routerAnySwapTradeTokensForTokensTopic =
     0xfea6abdf4fd32f20966dff7619354cd82cd43dc78a3bee479f04c74dbfc585b3"

definition routerAnySwapTradeTokensForNativeTopic :: "256 word" where
  "routerAnySwapTradeTokensForNativeTopic =
     0x278277e0209c347189add7bd92411973b5f6b8644f7ac62ea1be984ce993f8f4"

definition logNFT721SwapOutTopic :: "256 word" where
  "logNFT721SwapOutTopic = 0x0d45b0b9f5add3e1bb841982f1fa9303628b0b619b000cb1f9f1c3903329a4c7"

definition logNFT1155SwapOutTopic :: "256 word" where
  "logNFT1155SwapOutTopic = 0x5058b8684cf36ffd9f66bc623fbc617a44dd65cf2273306d03d3104af0995cb0"

definition logNFT1155SwapOutBatchTopic :: "256 word" where
  "logNFT1155SwapOutBatchTopic = 0xaa428a5ab688b49b415401782c170d216b33b15711d30cf69482f570eca8db38"

definition logAnycallSwapOutTopic :: "256 word" where
  "logAnycallSwapOutTopic = 0x9ca1de98ebed0a9c38ace93d3ca529edacbbe199cf1b6f0f416ae9b724d4a81c"

definition logAnycallTransferSwapOutTopic :: "256 word" where
  "logAnycallTransferSwapOutTopic =
     0xcaac11c45e5fdb5c513e20ac229a3f9f99143580b5eb08d0fecbdd5ae8c81ef5"

definition httpTimeoutKeywords :: string where
  "httpTimeoutKeywords = ''Client.Timeout exceeded while awaiting headers''"

definition errConnectionRefused :: string where
  "errConnectionRefused = ''connect: connection refused''"

definition errMaximumRequestLimit :: string where
  "errMaximumRequestLimit = ''You have reached maximum request limit''"

section \<open>Token rules (package params)\<close>

definition TxSwapin :: string where "TxSwapin = ''swapin''"
definition TxSwapout :: string where "TxSwapout = ''swapout''"
definition TxSwapout2 :: string where "TxSwapout2 = ''swapout2''"
definition TxRouterERC20Swap :: string where "TxRouterERC20Swap = ''routerswap''"
definition TxRouterNFTSwap :: string where "TxRouterNFTSwap = ''nftswap''"
definition TxRouterAnycallSwap :: string where "TxRouterAnycallSwap = ''anycallswap''"
definition TxRouterGas :: string where "TxRouterGas = ''gasswap''"

record TokenConfig =
  TxType :: string
  SwapServer :: string
  CallByContract :: string
  Whitelist :: "string list"
  PairID :: string
  TokenAddress :: string
  DepositAddress :: string
  ChainID :: string
  RouterContract :: string

definition IsNativeToken :: "TokenConfig \<Rightarrow> bool" where
  "IsNativeToken c = (TokenAddress c = ''native'')"

definition IsRouterERC20Swap :: "TokenConfig \<Rightarrow> bool" where
  "IsRouterERC20Swap c = (TxType c = TxRouterERC20Swap \<or> TxType c = TxRouterGas)"

definition IsRouterSwap :: "TokenConfig \<Rightarrow> bool" where
  "IsRouterSwap c = (TxType c = TxRouterERC20Swap \<or> TxType c = TxRouterGas)"

definition IsRouterNFTSwap :: "TokenConfig \<Rightarrow> bool" where
  "IsRouterNFTSwap c = (TxType c = TxRouterNFTSwap)"

definition IsRouterAnycallSwap :: "TokenConfig \<Rightarrow> bool" where
  "IsRouterAnycallSwap c = (TxType c = TxRouterAnycallSwap)"

section \<open>Chain data, swap records and effects\<close>

record Log =
  Address :: bytes
  Topics :: "256 word list"
  Data :: "bytes option"
  Removed :: bool

record Receipt =
  Status :: "64 word"
  Logs :: "Log list"

record Transaction =
  txTo :: "bytes option"
  txHash :: "256 word"
  txData :: bytes

record swapPost =
  txid :: string
  rpcMethod :: string
  swapServer :: string
  chain :: string
  pairID :: string
  chainID :: string
  logIndex :: string

text \<open>The error values of package \<open>tokens\<close> that the verifier returns; \<open>None\<close> is \<open>nil\<close>.\<close>

datatype err =
  ErrTxWithWrongInput
| ErrTxFuncHashMismatch
| ErrTxWithWrongReceiver
| ErrDepositLogNotFound
| ErrSwapoutLogNotFound

text \<open>
  What the classifier does to the outside is kept as a list of events, oldest first: a
  call of \<open>loopGetTxReceipt\<close> for a transaction hash, and a call of the dispatcher
  \<open>postSwapPost\<close> with a swap record. A run ends by returning a value or by a run-time
  panic of Go (an index out of range, a nil dereference); the events before a panic stay.
\<close>

datatype event = GetTxReceipt "256 word" | PostSwapPost swapPost

datatype 'a outcome = Returned 'a | Panic

text \<open>
  The scanner object. \<open>client\<close> stands for \<open>scanner.client.TransactionReceipt\<close>: the
  answer of the node to the attempt with the given number for the given hash, \<open>None\<close>
  being an RPC error.
\<close>

record ethSwapScanner =
  scanReceipt :: bool
  rpcRetryCount :: int
  client :: "nat \<Rightarrow> 256 word \<Rightarrow> Receipt option"

section \<open>Chain client adapter\<close>

fun loopGetTxReceiptFrom :: "ethSwapScanner \<Rightarrow> 256 word \<Rightarrow> nat \<Rightarrow> nat \<Rightarrow> Receipt option" where
  "loopGetTxReceiptFrom scanner h 0 i = None"
| "loopGetTxReceiptFrom scanner h (Suc left) i =
     (case client scanner i h of
        Some receipt \<Rightarrow> (if Status receipt \<noteq> 1 then None else Some receipt)
      | None \<Rightarrow> loopGetTxReceiptFrom scanner h left (Suc i))"

definition loopGetTxReceipt :: "ethSwapScanner \<Rightarrow> 256 word \<Rightarrow> Receipt option" where
  "loopGetTxReceipt scanner h = loopGetTxReceiptFrom scanner h 5 0"

section \<open>Classifier and verifier\<close>

definition checkTxToAddress ::
  "ethSwapScanner \<Rightarrow> Transaction \<Rightarrow> TokenConfig \<Rightarrow> event list \<times> (Receipt option \<times> bool) outcome" where
  "checkTxToAddress scanner tx tokenCfg =
     (case txTo tx of
        None \<Rightarrow> ([], Panic)
      | Some toAddr \<Rightarrow>
          (let txtoAddress = Hex toAddr;
               (cmpTxTo, needReceipt1) =
                  (if IsRouterSwap tokenCfg then (RouterContract tokenCfg, True)
                   else if IsNativeToken tokenCfg then (DepositAddress tokenCfg, scanReceipt scanner)
                   else if CallByContract tokenCfg \<noteq> '''' then (CallByContract tokenCfg, True)
                   else (TokenAddress tokenCfg, scanReceipt scanner));
               (isAcceptToAddr, needReceipt) =
                  (if EqualFold txtoAddress cmpTxTo then (True, needReceipt1)
                   else if \<not> IsNativeToken tokenCfg
                        then (if list_ex (\<lambda>whiteAddr. EqualFold txtoAddress whiteAddr) (Whitelist tokenCfg)
                              then (True, True) else (False, needReceipt1))
                   else (False, needReceipt1))
           in if \<not> isAcceptToAddr then ([], Returned (None, False))
              else if needReceipt
                   then (case loopGetTxReceipt scanner (txHash tx) of
                           None \<Rightarrow> ([GetTxReceipt (txHash tx)], Returned (None, False))
                         | Some r \<Rightarrow> ([GetTxReceipt (txHash tx)], Returned (Some r, True)))
              else ([], Returned (None, True))))"

definition postBridgeSwap :: "string \<Rightarrow> TokenConfig \<Rightarrow> event list" where
  "postBridgeSwap txid' tokenCfg =
     [PostSwapPost \<lparr>txid = txid',
        rpcMethod = (if DepositAddress tokenCfg \<noteq> '''' then ''swap.Swapin'' else ''swap.Swapout''),
        swapServer = SwapServer tokenCfg, chain = '''', pairID = PairID tokenCfg,
        chainID = '''', logIndex = ''''\<rparr>]"

definition postRouterSwap :: "string \<Rightarrow> nat \<Rightarrow> TokenConfig \<Rightarrow> event list" where
  "postRouterSwap txid' logIndex' tokenCfg =
     [PostSwapPost \<lparr>txid = txid', rpcMethod = ''swap.RegisterRouterSwap'',
        swapServer = SwapServer tokenCfg, chain = '''', pairID = '''',
        chainID = ChainID tokenCfg, logIndex = Sprintf_d logIndex'\<rparr>]"

definition getSwapoutFuncHashByTxType :: "string \<Rightarrow> bytes" where
  "getSwapoutFuncHashByTxType txType =
     (if ToLower txType = TxSwapout then addressSwapoutFuncHash
      else if ToLower txType = TxSwapout2 then stringSwapoutFuncHash
      else [])"

definition getLogTopicByTxType :: "string \<Rightarrow> 256 word \<times> nat" where
  "getLogTopicByTxType txType =
     (if ToLower txType = TxSwapin then (transferLogTopic, 3)
      else if ToLower txType = TxSwapout then (addressSwapoutLogTopic, 3)
      else if ToLower txType = TxSwapout2 then (stringSwapoutLogTopic, 2)
      else (0, 0))"

text \<open>
  The loop of \<open>verifyAndPostRouterSwapTx\<close> over \<open>receipt.Logs\<close>, from index \<open>i\<close> on.
  \<open>rlog.Topics[0]\<close> is read with no check of the length: on a log without topics it
  panics.
\<close>

fun verifyRouterLogs :: "Transaction \<Rightarrow> TokenConfig \<Rightarrow> nat \<Rightarrow> Log list \<Rightarrow> event list \<times> unit outcome" where
  "verifyRouterLogs tx tokenCfg i [] = ([], Returned ())"
| "verifyRouterLogs tx tokenCfg i (rlog # rest) =
     (if Removed rlog then verifyRouterLogs tx tokenCfg (Suc i) rest
      else if \<not> EqualFold (Hex (Address rlog)) (RouterContract tokenCfg)
      then verifyRouterLogs tx tokenCfg (Suc i) rest
      else (case Topics rlog of
              [] \<Rightarrow> ([], Panic)
            | logTopic # _ \<Rightarrow>
                (let skip =
                   (if IsRouterERC20Swap tokenCfg
                    then \<not> (logTopic = routerAnySwapOutTopic
                            \<or> logTopic = routerAnySwapTradeTokensForTokensTopic
                            \<or> logTopic = routerAnySwapTradeTokensForNativeTopic)
                    else if IsRouterNFTSwap tokenCfg
                    then \<not> (logTopic = logNFT721SwapOutTopic
                            \<or> logTopic = logNFT1155SwapOutTopic
                            \<or> logTopic = logNFT1155SwapOutBatchTopic)
                    else if IsRouterAnycallSwap tokenCfg
                    then \<not> (logTopic = logAnycallSwapOutTopic
                            \<or> logTopic = logAnycallTransferSwapOutTopic)
                    else False)
                 in if skip then verifyRouterLogs tx tokenCfg (Suc i) rest
                    else (case verifyRouterLogs tx tokenCfg (Suc i) rest of
                            (es, r) \<Rightarrow> (postRouterSwap (HashHex (txHash tx)) i tokenCfg @ es, r)))))"

definition verifyAndPostRouterSwapTx ::
  "Transaction \<Rightarrow> Receipt option \<Rightarrow> TokenConfig \<Rightarrow> event list \<times> unit outcome" where
  "verifyAndPostRouterSwapTx tx receipt tokenCfg =
     (case receipt of
        None \<Rightarrow> ([], Returned ())
      | Some r \<Rightarrow> verifyRouterLogs tx tokenCfg 0 (Logs r))"

definition parseErc20SwapinTxInput :: "bytes \<Rightarrow> string \<Rightarrow> err option" where
  "parseErc20SwapinTxInput input depositAddress =
     (if length input < 4 then Some ErrTxWithWrongInput
      else (let funcHash = take 4 input
            in if funcHash = transferFuncHash
               then (if \<not> EqualFold (Hex (BytesToAddress (GetData input 4 32))) depositAddress
                     then Some ErrTxWithWrongReceiver else None)
               else if funcHash = transferFromFuncHash
               then (if \<not> EqualFold (Hex (BytesToAddress (GetData input 36 32))) depositAddress
                     then Some ErrTxWithWrongReceiver else None)
               else Some ErrTxFuncHashMismatch))"

text \<open>
  The loop of \<open>parseErc20SwapinTxLogs\<close>, with the flag \<open>transferLogExist\<close> as an
  argument. \<open>rlog.Topics[0]\<close> and \<open>rlog.Topics[2]\<close> panic when the log is too short,
  which the length check excludes exactly when \<open>topicsLen\<close> is 3.
\<close>

fun erc20SwapinLogs ::
  "string \<Rightarrow> string \<Rightarrow> 256 word \<Rightarrow> nat \<Rightarrow> bool \<Rightarrow> Log list \<Rightarrow> err option outcome" where
  "erc20SwapinLogs targetContract depositAddress cmpLogTopic topicsLen transferLogExist [] =
     Returned (if transferLogExist then Some ErrTxWithWrongReceiver else Some ErrDepositLogNotFound)"
| "erc20SwapinLogs targetContract depositAddress cmpLogTopic topicsLen transferLogExist (rlog # rest) =
     (if Removed rlog
      then erc20SwapinLogs targetContract depositAddress cmpLogTopic topicsLen transferLogExist rest
      else if \<not> EqualFold (Hex (Address rlog)) targetContract
      then erc20SwapinLogs targetContract depositAddress cmpLogTopic topicsLen transferLogExist rest
      else if length (Topics rlog) \<noteq> topicsLen \<or> Data rlog = None
      then erc20SwapinLogs targetContract depositAddress cmpLogTopic topicsLen transferLogExist rest
      else (case Topics rlog of
              [] \<Rightarrow> Panic
            | topic0 # _ \<Rightarrow>
                if topic0 \<noteq> cmpLogTopic
                then erc20SwapinLogs targetContract depositAddress cmpLogTopic topicsLen
                       transferLogExist rest
                else if length (Topics rlog) \<le> 2 then Panic
                else if EqualFold (Hex (BytesToAddress (Bytes (Topics rlog ! 2)))) depositAddress
                then Returned None
                else erc20SwapinLogs targetContract depositAddress cmpLogTopic topicsLen True rest))"

definition parseErc20SwapinTxLogs :: "Log list \<Rightarrow> TokenConfig \<Rightarrow> err option outcome" where
  "parseErc20SwapinTxLogs logs tokenCfg =
     (let targetContract = TokenAddress tokenCfg;
          depositAddress = DepositAddress tokenCfg;
          (cmpLogTopic, topicsLen) = getLogTopicByTxType (TxType tokenCfg)
      in erc20SwapinLogs targetContract depositAddress cmpLogTopic topicsLen False logs)"

definition parseSwapoutTxInput :: "bytes \<Rightarrow> string \<Rightarrow> err option" where
  "parseSwapoutTxInput input txType =
     (if length input < 4 then Some ErrTxWithWrongInput
      else if take 4 input = getSwapoutFuncHashByTxType txType then None
      else Some ErrTxFuncHashMismatch)"

fun swapoutLogs :: "string \<Rightarrow> 256 word \<Rightarrow> nat \<Rightarrow> Log list \<Rightarrow> err option outcome" where
  "swapoutLogs targetContract cmpLogTopic topicsLen [] = Returned (Some ErrSwapoutLogNotFound)"
| "swapoutLogs targetContract cmpLogTopic topicsLen (rlog # rest) =
     (if Removed rlog then swapoutLogs targetContract cmpLogTopic topicsLen rest
      else if \<not> EqualFold (Hex (Address rlog)) targetContract
      then swapoutLogs targetContract cmpLogTopic topicsLen rest
      else if length (Topics rlog) \<noteq> topicsLen \<or> Data rlog = None
      then swapoutLogs targetContract cmpLogTopic topicsLen rest
      else (case Topics rlog of
              [] \<Rightarrow> Panic
            | topic0 # _ \<Rightarrow>
                if topic0 = cmpLogTopic then Returned None
                else swapoutLogs targetContract cmpLogTopic topicsLen rest))"

definition parseSwapoutTxLogs :: "Log list \<Rightarrow> TokenConfig \<Rightarrow> err option outcome" where
  "parseSwapoutTxLogs logs tokenCfg =
     (let targetContract = TokenAddress tokenCfg;
          (cmpLogTopic, topicsLen) = getLogTopicByTxType (TxType tokenCfg)
      in swapoutLogs targetContract cmpLogTopic topicsLen logs)"

definition verifyErc20SwapinTx ::
  "Transaction \<Rightarrow> Receipt option \<Rightarrow> TokenConfig \<Rightarrow> err option outcome" where
  "verifyErc20SwapinTx tx receipt tokenCfg =
     (case receipt of
        None \<Rightarrow> Returned (parseErc20SwapinTxInput (txData tx) (DepositAddress tokenCfg))
      | Some r \<Rightarrow> parseErc20SwapinTxLogs (Logs r) tokenCfg)"

definition verifySwapoutTx ::
  "Transaction \<Rightarrow> Receipt option \<Rightarrow> TokenConfig \<Rightarrow> err option outcome" where
  "verifySwapoutTx tx receipt tokenCfg =
     (case receipt of
        None \<Rightarrow> Returned (parseSwapoutTxInput (txData tx) (TxType tokenCfg))
      | Some r \<Rightarrow> parseSwapoutTxLogs (Logs r) tokenCfg)"

text \<open>
  \<open>verifyTransaction\<close>. The last step of the bridge branches, \<open>postBridgeSwap\<close> when
  \<open>verifyErr\<close> is \<open>nil\<close>, is \<open>postIfVerified\<close>.
\<close>

definition postIfVerified ::
  "string \<Rightarrow> TokenConfig \<Rightarrow> event list \<Rightarrow> err option outcome \<Rightarrow> event list \<times> err option outcome" where
  "postIfVerified txid' tokenCfg es res =
     (case res of
        Panic \<Rightarrow> (es, Panic)
      | Returned verifyErr \<Rightarrow>
          (if verifyErr = None then (es @ postBridgeSwap txid' tokenCfg, Returned verifyErr)
           else (es, Returned verifyErr)))"

definition verifyTransaction ::
  "ethSwapScanner \<Rightarrow> Transaction \<Rightarrow> TokenConfig \<Rightarrow> event list \<times> err option outcome" where
  "verifyTransaction scanner tx tokenCfg =
     (case checkTxToAddress scanner tx tokenCfg of
        (es, Panic) \<Rightarrow> (es, Panic)
      | (es, Returned (receipt, isAcceptToAddr)) \<Rightarrow>
          if \<not> isAcceptToAddr then (es, Returned None)
          else if IsRouterSwap tokenCfg
          then (case verifyAndPostRouterSwapTx tx receipt tokenCfg of
                  (es', Panic) \<Rightarrow> (es @ es', Panic)
                | (es', Returned _) \<Rightarrow> (es @ es', Returned None))
          else if DepositAddress tokenCfg \<noteq> ''''
          then (if IsNativeToken tokenCfg
                then (es @ postBridgeSwap (HashHex (txHash tx)) tokenCfg, Returned None)
                else (case verifyErc20SwapinTx tx receipt tokenCfg of
                        Panic \<Rightarrow> (es, Panic)
                      | Returned verifyErr \<Rightarrow>
                          if verifyErr = Some ErrTxWithWrongReceiver then (es, Returned None)
                          else postIfVerified (HashHex (txHash tx)) tokenCfg es (Returned verifyErr)))
          else if scanReceipt scanner
          then (case receipt of
                  None \<Rightarrow> (es, Panic)
                | Some r \<Rightarrow>
                    postIfVerified (HashHex (txHash tx)) tokenCfg es (parseSwapoutTxLogs (Logs r) tokenCfg))
          else postIfVerified (HashHex (txHash tx)) tokenCfg es (verifySwapoutTx tx receipt tokenCfg))"

text \<open>
  \<open>scanTransaction\<close>: the loop over \<open>params.GetScanConfig().Tokens\<close> (here the argument
  \<open>Tokens\<close>). The error a rule returns is only logged, and the loop has no exit.
\<close>

fun scanTokens :: "ethSwapScanner \<Rightarrow> Transaction \<Rightarrow> TokenConfig list \<Rightarrow> event list \<times> unit outcome" where
  "scanTokens scanner tx [] = ([], Returned ())"
| "scanTokens scanner tx (tokenCfg # rest) =
     (case verifyTransaction scanner tx tokenCfg of
        (es, Panic) \<Rightarrow> (es, Panic)
      | (es, Returned verifyErr) \<Rightarrow>
          (case scanTokens scanner tx rest of (es', r) \<Rightarrow> (es @ es', r)))"

definition scanTransaction ::
  "ethSwapScanner \<Rightarrow> TokenConfig list \<Rightarrow> Transaction \<Rightarrow> event list \<times> unit outcome" where
  "scanTransaction scanner Tokens tx =
     (case txTo tx of
        None \<Rightarrow> ([], Returned ())
      | Some _ \<Rightarrow> scanTokens scanner tx Tokens)"

section \<open>Registration dispatcher\<close>

text \<open>
  An error returned by \<open>rpcPost\<close>: whether \<open>errors.Is(err, tokens.ErrTxNotFound)\<close> holds,
  and the text of \<open>err.Error()\<close>. What \<open>rpcPost\<close> returns depends on the swap server;
  the dispatcher is given the answers of its successive calls as a function of the attempt
  number, \<open>None\<close> being \<open>nil\<close>.
\<close>

record rpcError =
  isErrTxNotFound :: bool
  Error :: string

record MgoSwap =
  ms_Id :: string
  ms_PairID :: string
  ms_RpcMethod :: string
  ms_SwapServer :: string
  ms_ChainID :: string
  ms_LogIndex :: string
  ms_Chain :: string
  ms_Timestamp :: "64 word"

text \<open>
  The writes of the dispatcher, oldest first: \<open>scanner.cachedSwapPosts.Add\<close> on the retry
  ring, \<open>mongodb.AddSwapPending\<close> on the pending collection and \<open>mongodb.AddSwap\<close> on the
  registered collection.
\<close>

datatype effect = RingAdd swapPost | AddSwapPending MgoSwap | AddSwap MgoSwap

definition toMgoSwap :: "string \<Rightarrow> 64 word \<Rightarrow> swapPost \<Rightarrow> MgoSwap" where
  "toMgoSwap chain' now swap =
     \<lparr>ms_Id = txid swap, ms_PairID = pairID swap, ms_RpcMethod = rpcMethod swap,
      ms_SwapServer = swapServer swap, ms_ChainID = chainID swap, ms_LogIndex = logIndex swap,
      ms_Chain = chain', ms_Timestamp = now\<rparr>"

definition addMongodbSwapPost :: "string \<Rightarrow> 64 word \<Rightarrow> swapPost \<Rightarrow> effect list" where
  "addMongodbSwapPost chain' now swap = [AddSwap (toMgoSwap chain' now swap)]"

definition addMongodbSwapPendingPost :: "string \<Rightarrow> 64 word \<Rightarrow> swapPost \<Rightarrow> effect list" where
  "addMongodbSwapPendingPost chain' now swap = [AddSwapPending (toMgoSwap chain' now swap)]"

text \<open>
  The retry loop of \<open>postSwapPost\<close>: \<open>left\<close> attempts remain, \<open>i\<close> is the attempt
  number, and the pair is \<open>(needCached, needPending)\<close>.
\<close>

fun postSwapPostLoop ::
  "(nat \<Rightarrow> rpcError option) \<Rightarrow> nat \<Rightarrow> nat \<Rightarrow> bool \<times> bool \<Rightarrow> bool \<times> bool" where
  "postSwapPostLoop rpcPost 0 i flags = flags"
| "postSwapPostLoop rpcPost (Suc left) i flags =
     (case rpcPost i of
        None \<Rightarrow> flags
      | Some e \<Rightarrow>
          postSwapPostLoop rpcPost left (Suc i)
            (if isErrTxNotFound e
                \<or> Contains (Error e) httpTimeoutKeywords
                \<or> Contains (Error e) errConnectionRefused
                \<or> Contains (Error e) errMaximumRequestLimit
             then (True, True) else flags))"

definition postSwapPost ::
  "ethSwapScanner \<Rightarrow> bool \<Rightarrow> string \<Rightarrow> 64 word \<Rightarrow> (nat \<Rightarrow> rpcError option) \<Rightarrow> swapPost \<Rightarrow> effect list" where
  "postSwapPost scanner mongodbEnable chain' now rpcPost swap =
     (let (needCached, needPending) =
            postSwapPostLoop rpcPost (nat (rpcRetryCount scanner)) 0 (False, False)
      in (if needCached then [RingAdd swap] else [])
         @ (if needPending
            then (if mongodbEnable then addMongodbSwapPendingPost chain' now swap else [])
            else [])
         @ (if \<not> needCached \<and> \<not> needPending
            then (if mongodbEnable then addMongodbSwapPost chain' now swap else [])
            else []))"

section \<open>Sync-height checkpoint (scanner/scanswap.go, updateSyncdBlockNumber)\<close>

text \<open>
  The package-level variables \<open>syncedNumber\<close>, \<open>syncedCount\<close>, \<open>syncdCount2Mongodb\<close> and
  \<open>synced\<close> are \<open>uint64\<close>/\<open>bool\<close> globals; they become the fields of a record that
  is passed through. \<open>storeCalls\<close> records, oldest first, the heights handed to
  \<open>mongodb.UpdateSyncedBlockNumber\<close>; whether that call returned a nil error is the
  first argument of the step function.
\<close>

record sync_state =
  syncedNumber :: "64 word"
  syncedCount :: "64 word"
  syncdCount2Mongodb :: "64 word"
  synced :: bool
  storeCalls :: "64 word list"

definition updateSyncdBlockNumber :: "bool \<Rightarrow> 64 word \<Rightarrow> sync_state \<Rightarrow> sync_state" where
  "updateSyncdBlockNumber storeOk number s =
     (let s1 = (if number = syncedNumber s + 1
                then s\<lparr>syncedCount := syncedCount s + 1, syncedNumber := number\<rparr>
                else s)
      in if syncdCount2Mongodb s1 \<le> syncedCount s1
         then (let s2 = s1\<lparr>synced := True, storeCalls := storeCalls s1 @ [syncedNumber s1]\<rparr>
               in if storeOk then s2\<lparr>syncedCount := 0\<rparr> else s2)
         else s1)"

text \<open>
  The inner loop of \<open>scanLoop\<close> calls \<open>updateSyncdBlockNumber h\<close> for the heights of one pass
  in ascending order; \<open>scanHeights\<close> is that sequence of calls on the checkpoint state.
\<close>

fun scanHeights :: "bool \<Rightarrow> 64 word list \<Rightarrow> sync_state \<Rightarrow> sync_state" where
  "scanHeights storeOk [] s = s"
| "scanHeights storeOk (h # hs) s = scanHeights storeOk hs (updateSyncdBlockNumber storeOk h s)"

definition heightsFrom :: "64 word \<Rightarrow> nat \<Rightarrow> 64 word list" where
  "heightsFrom start n = map (\<lambda>k. start + of_nat k) [0..<n]"

section \<open>Notions of the specification\<close>

text \<open>
  The transfer logs of a rule, in the words of the specification: a log that is not
  removed, on the token contract, with exactly 3 topics, with data, and with the
  \<open>Transfer\<close> topic first. \<open>logReceiver\<close> is the address in its third topic.
\<close>

definition isTransferLog :: "string \<Rightarrow> Log \<Rightarrow> bool" where
  "isTransferLog tokenAddress l =
     (\<not> Removed l \<and> EqualFold (Hex (Address l)) tokenAddress \<and> length (Topics l) = 3
      \<and> Data l \<noteq> None \<and> Topics l ! 0 = transferLogTopic)"

definition logReceiver :: "Log \<Rightarrow> string" where
  "logReceiver l = Hex (BytesToAddress (Bytes (Topics l ! 2)))"

text \<open>The logs of the router contract that are not removed.\<close>

definition isRouterLog :: "string \<Rightarrow> Log \<Rightarrow> bool" where
  "isRouterLog routerContract l = (\<not> Removed l \<and> EqualFold (Hex (Address l)) routerContract)"

text \<open>
  The to-address a rule expects, the variable \<open>cmpTxTo\<close> of \<open>checkTxToAddress\<close>.
\<close>

definition cmpTxTo :: "TokenConfig \<Rightarrow> string" where
  "cmpTxTo tokenCfg =
     (if IsRouterSwap tokenCfg then RouterContract tokenCfg
      else if IsNativeToken tokenCfg then DepositAddress tokenCfg
      else if CallByContract tokenCfg \<noteq> '''' then CallByContract tokenCfg
      else TokenAddress tokenCfg)"

text \<open>
  The errors that \<open>postSwapPost\<close> takes as transient, and the errors of the attempts it
  makes: it stops at the first \<open>nil\<close> and after \<open>left\<close> attempts.
\<close>

definition transientError :: "rpcError \<Rightarrow> bool" where
  "transientError e =
     (isErrTxNotFound e
      \<or> Contains (Error e) httpTimeoutKeywords
      \<or> Contains (Error e) errConnectionRefused
      \<or> Contains (Error e) errMaximumRequestLimit)"

fun attemptErrors :: "(nat \<Rightarrow> rpcError option) \<Rightarrow> nat \<Rightarrow> nat \<Rightarrow> rpcError list" where
  "attemptErrors rpcPost 0 i = []"
| "attemptErrors rpcPost (Suc left) i =
     (case rpcPost i of
        None \<Rightarrow> []
      | Some e \<Rightarrow> e # attemptErrors rpcPost left (Suc i))"

text \<open>
  The topic set of a rule, as the branches of \<open>verifyAndPostRouterSwapTx\<close> list them; a
  rule of no router kind passes every topic there.
\<close>

definition inTopicSet :: "TokenConfig \<Rightarrow> 256 word \<Rightarrow> bool" where
  "inTopicSet tokenCfg t =
     (if IsRouterERC20Swap tokenCfg
      then t = routerAnySwapOutTopic \<or> t = routerAnySwapTradeTokensForTokensTopic
           \<or> t = routerAnySwapTradeTokensForNativeTopic
      else if IsRouterNFTSwap tokenCfg
      then t = logNFT721SwapOutTopic \<or> t = logNFT1155SwapOutTopic
           \<or> t = logNFT1155SwapOutBatchTopic
      else if IsRouterAnycallSwap tokenCfg
      then t = logAnycallSwapOutTopic \<or> t = logAnycallTransferSwapOutTopic
      else True)"

text \<open>
  The counter of the checkpoint after the first step of \<open>updateSyncdBlockNumber\<close>, which
  adds one when the height is \<open>syncedNumber + 1\<close>.
\<close>

definition countAfter :: "64 word \<Rightarrow> sync_state \<Rightarrow> 64 word" where
  "countAfter number s =
     (if number = syncedNumber s + 1 then syncedCount s + 1 else syncedCount s)"

text \<open>
  The rules that \<open>scanTransaction\<close> offers a transaction to: the rules of the
  configuration in their order, up to and including the first one whose verification
  ends in a panic, and all of them when there is none.
\<close>

fun offeredRules :: "ethSwapScanner \<Rightarrow> Transaction \<Rightarrow> TokenConfig list \<Rightarrow> TokenConfig list" where
  "offeredRules scanner tx [] = []"
| "offeredRules scanner tx (tokenCfg # rest) =
     (if snd (verifyTransaction scanner tx tokenCfg) = Panic then [tokenCfg]
      else tokenCfg # offeredRules scanner tx rest)"

section \<open>Sample inputs\<close>

text \<open>
  Concrete rules, transactions, logs and server answers on which the theorems below are
  evaluated. \<open>sampleAddress x\<close> is the 20-byte address ending in the byte \<open>x\<close>.
\<close>

definition sampleAddress :: "8 word \<Rightarrow> bytes" where
  "sampleAddress x = replicate 19 0 @ [x]"

definition nativeRule :: "string \<Rightarrow> string list \<Rightarrow> TokenConfig" where
  "nativeRule pid wl =
     \<lparr>TxType = ''swapin'', SwapServer = ''http://swapserver'', CallByContract = '''',
      Whitelist = wl, PairID = pid, TokenAddress = ''native'',
      DepositAddress = ''0x000000000000000000000000000000000000000A'',
      ChainID = '''', RouterContract = ''''\<rparr>"

definition erc20Rule :: TokenConfig where
  "erc20Rule =
     \<lparr>TxType = ''swapin'', SwapServer = ''http://swapserver'', CallByContract = '''',
      Whitelist = [''0x000000000000000000000000000000000000000D''], PairID = ''usdt'',
      TokenAddress = ''0x000000000000000000000000000000000000000B'',
      DepositAddress = ''0x000000000000000000000000000000000000000A'',
      ChainID = '''', RouterContract = ''''\<rparr>"

definition routerRule :: "string \<Rightarrow> TokenConfig" where
  "routerRule kind =
     \<lparr>TxType = kind, SwapServer = ''http://routerserver'', CallByContract = '''',
      Whitelist = [], PairID = '''', TokenAddress = '''', DepositAddress = '''',
      ChainID = ''56'', RouterContract = ''0x000000000000000000000000000000000000000C''\<rparr>"

definition routerLog :: "256 word list \<Rightarrow> Log" where
  "routerLog tops = \<lparr>Address = sampleAddress 0x0c, Topics = tops, Data = Some [], Removed = False\<rparr>"

definition transferLog :: "8 word \<Rightarrow> Log" where
  "transferLog receiver =
     \<lparr>Address = sampleAddress 0x0b,
      Topics = [transferLogTopic, 0x01, foldl (\<lambda>n b. 256 * n + ucast b) 0 (sampleAddress receiver)],
      Data = Some [], Removed = False\<rparr>"

definition sampleScanner :: "Log list \<Rightarrow> ethSwapScanner" where
  "sampleScanner logs =
     \<lparr>scanReceipt = False, rpcRetryCount = 3,
      client = (\<lambda>i h. Some \<lparr>Status = 1, Logs = logs\<rparr>)\<rparr>"

definition sampleTx :: "bytes option \<Rightarrow> bytes \<Rightarrow> Transaction" where
  "sampleTx to input = \<lparr>txTo = to, txHash = 0x1234, txData = input\<rparr>"

definition transferInput :: "8 word \<Rightarrow> bytes" where
  "transferInput receiver =
     transferFuncHash @ replicate 12 0 @ sampleAddress receiver @ replicate 31 0 @ [100]"

definition transferFromInput :: "8 word \<Rightarrow> bytes" where
  "transferFromInput receiver =
     transferFromFuncHash @ replicate 12 0 @ sampleAddress 0x0e
       @ replicate 12 0 @ sampleAddress receiver @ replicate 31 0 @ [100]"

definition sampleSwap :: swapPost where
  "sampleSwap =
     \<lparr>txid = ''0x1234'', rpcMethod = ''swap.Swapin'', swapServer = ''http://swapserver'',
      chain = '''', pairID = ''usdt'', chainID = '''', logIndex = ''''\<rparr>"

definition connRefused :: rpcError where
  "connRefused =
     \<lparr>isErrTxNotFound = False,
      Error = ''Post http://swapserver: dial tcp 127.0.0.1:11556: connect: connection refused''\<rparr>"

definition refusedTwice :: "nat \<Rightarrow> rpcError option" where
  "refusedTwice i = (if i < 2 then Some connRefused else None)"

definition postOk :: "nat \<Rightarrow> rpcError option" where
  "postOk i = None"

section \<open>The checkpoint update rule\<close>

lemma word_reach_threshold: "(c::64 word) < t \<Longrightarrow> (t \<le> c + 1) = (c + 1 = t)"
  using inc_le [of c t] by auto

lemma updateSyncdBlockNumber_advance:
  "syncedNumber (updateSyncdBlockNumber ok n s) \<noteq> syncedNumber s \<Longrightarrow>
     n = syncedNumber s + 1 \<and> syncedNumber (updateSyncdBlockNumber ok n s) = n"
  by (auto simp: updateSyncdBlockNumber_def Let_def split: if_splits)

lemma updateSyncdBlockNumber_flush:
  "syncedCount s < syncdCount2Mongodb s \<Longrightarrow>
     storeCalls (updateSyncdBlockNumber ok n s) =
       (if n = syncedNumber s + 1 \<and> syncedCount s + 1 = syncdCount2Mongodb s
        then storeCalls s @ [n] else storeCalls s)"
  by (auto simp: updateSyncdBlockNumber_def Let_def word_reach_threshold)

lemma updateSyncdBlockNumber_count:
  "syncedCount s < syncdCount2Mongodb s \<Longrightarrow>
     syncedCount (updateSyncdBlockNumber True n s) =
       (if n = syncedNumber s + 1
        then (if syncedCount s + 1 = syncdCount2Mongodb s then 0 else syncedCount s + 1)
        else syncedCount s)"
  by (auto simp: updateSyncdBlockNumber_def Let_def word_reach_threshold)

lemma updateSyncdBlockNumber_below:
  assumes "syncedCount s < syncdCount2Mongodb s"
  shows "syncedCount (updateSyncdBlockNumber True n s) < syncdCount2Mongodb s"
proof -
  have pos: "0 < syncdCount2Mongodb s"
    by (rule le_less_trans [OF word_zero_le assms])
  have step: "syncedCount s + 1 \<noteq> syncdCount2Mongodb s \<Longrightarrow> syncedCount s + 1 < syncdCount2Mongodb s"
    using inc_le [OF assms] by (simp add: order_less_le)
  show ?thesis
    using assms pos step by (simp add: updateSyncdBlockNumber_count)
qed

lemma scan_1001_to_1100:
  "scanHeights True (heightsFrom 1001 100)
     \<lparr>syncedNumber = 1000, syncedCount = 0, syncdCount2Mongodb = 100, synced = b, storeCalls = []\<rparr>
   = \<lparr>syncedNumber = 1100, syncedCount = 0, syncdCount2Mongodb = 100, synced = True,
       storeCalls = [1100]\<rparr>"
  by code_simp

lemma updateSyncdBlockNumber_calls:
  "storeCalls (updateSyncdBlockNumber ok n s) =
     (if syncdCount2Mongodb s \<le> countAfter n s
      then storeCalls s @ [syncedNumber (updateSyncdBlockNumber ok n s)] else storeCalls s)"
  by (simp add: updateSyncdBlockNumber_def countAfter_def Let_def)

lemma updateSyncdBlockNumber_counter:
  "syncedCount (updateSyncdBlockNumber ok n s) =
     (if syncdCount2Mongodb s \<le> countAfter n s \<and> ok then 0 else countAfter n s)"
  by (simp add: updateSyncdBlockNumber_def countAfter_def Let_def)

text \<open>
  C6, as amended. \<open>syncedNumber\<close> changes only in a call whose height is
  \<open>syncedNumber + 1\<close>, and then it becomes that height. A call writes the store exactly
  when the counter, after the increment of that call if there is one, is at least
  \<open>syncdCount2Mongodb\<close>; the value written is \<open>syncedNumber\<close>. The counter goes
  back to 0 only when the store accepts the write; after a store error it is kept, so
  that the next call writes again. Starting from \<open>syncedNumber = 1000\<close> with counter 0
  and threshold 100, with a store that accepts the writes, the contiguous heights
  1001..1100 give exactly one write, of 1100, and leave the counter at 0.
\<close>

theorem C6_checkpoint_update_rule:
  "(syncedNumber (updateSyncdBlockNumber ok n s) \<noteq> syncedNumber s \<longrightarrow>
      n = syncedNumber s + 1 \<and> syncedNumber (updateSyncdBlockNumber ok n s) = n)
   \<and> storeCalls (updateSyncdBlockNumber ok n s) =
        (if syncdCount2Mongodb s \<le> countAfter n s
         then storeCalls s @ [syncedNumber (updateSyncdBlockNumber ok n s)] else storeCalls s)
   \<and> syncedCount (updateSyncdBlockNumber ok n s) =
        (if syncdCount2Mongodb s \<le> countAfter n s \<and> ok then 0 else countAfter n s)
   \<and> scanHeights True (heightsFrom 1001 100)
        \<lparr>syncedNumber = 1000, syncedCount = 0, syncdCount2Mongodb = 100, synced = b,
         storeCalls = []\<rparr>
      = \<lparr>syncedNumber = 1100, syncedCount = 0, syncdCount2Mongodb = 100, synced = True,
          storeCalls = [1100]\<rparr>"
  using updateSyncdBlockNumber_advance [of ok n s] updateSyncdBlockNumber_calls [of ok n s]
    updateSyncdBlockNumber_counter [of ok n s] scan_1001_to_1100 [of b]
  by blast

theorem C6_checkpoint_update_rule_witness:
  "syncedNumber (updateSyncdBlockNumber True 1100
       \<lparr>syncedNumber = 1099, syncedCount = 99, syncdCount2Mongodb = 100, synced = False,
        storeCalls = []\<rparr>) = 1100
   \<and> storeCalls (updateSyncdBlockNumber True 1100
       \<lparr>syncedNumber = 1099, syncedCount = 99, syncdCount2Mongodb = 100, synced = False,
        storeCalls = []\<rparr>) = [1100]
   \<and> syncedCount (updateSyncdBlockNumber True 1100
       \<lparr>syncedNumber = 1099, syncedCount = 99, syncdCount2Mongodb = 100, synced = False,
        storeCalls = []\<rparr>) = 0"
  using C6_checkpoint_update_rule [of True 1100
       "\<lparr>syncedNumber = 1099, syncedCount = 99, syncdCount2Mongodb = 100, synced = False,
        storeCalls = []\<rparr>" False]
  by (simp add: updateSyncdBlockNumber_def)

text \<open>
  C6 as stated fails when the store returns an error at the flush: the counter has
  reached the threshold at height 1100 and the store is called, but the counter stays
  at 100; the next call, for the height 7 that does not advance the checkpoint, writes
  again, and only that accepted write puts the counter back to 0.
\<close>

theorem C6_store_error_keeps_counter:
  "syncedCount (updateSyncdBlockNumber False 1100
       \<lparr>syncedNumber = 1099, syncedCount = 99, syncdCount2Mongodb = 100, synced = False,
        storeCalls = []\<rparr>) = 100
   \<and> storeCalls (updateSyncdBlockNumber False 1100
       \<lparr>syncedNumber = 1099, syncedCount = 99, syncdCount2Mongodb = 100, synced = False,
        storeCalls = []\<rparr>) = [1100]
   \<and> updateSyncdBlockNumber True 7 (updateSyncdBlockNumber False 1100
       \<lparr>syncedNumber = 1099, syncedCount = 99, syncdCount2Mongodb = 100, synced = False,
        storeCalls = []\<rparr>)
      = \<lparr>syncedNumber = 1100, syncedCount = 0, syncdCount2Mongodb = 100, synced = True,
          storeCalls = [1100, 1100]\<rparr>"
  by (simp add: updateSyncdBlockNumber_def)

section \<open>Contract-creation transactions\<close>

text \<open>
  C10. A transaction whose to-address is nil makes \<open>scanTransaction\<close> return at once:
  no rule is tried, so no receipt is requested and the dispatcher is not called.
\<close>

theorem C10_nil_to_address_skipped:
  "txTo tx = None \<Longrightarrow> scanTransaction scanner Tokens tx = ([], Returned ())"
  by (simp add: scanTransaction_def)

theorem C10_nil_to_address_skipped_witness:
  "txTo (sampleTx None []) = None
   \<and> scanTransaction (sampleScanner []) [nativeRule ''pairA'' [], erc20Rule] (sampleTx None [])
       = ([], Returned ())"
proof -
  have h: "txTo (sampleTx None []) = None"
    by (simp add: sampleTx_def)
  show ?thesis
    using h C10_nil_to_address_skipped [OF h] by simp
qed

section \<open>Call data of an ERC-20 swapin\<close>

lemma verifyErc20SwapinTx_without_receipt:
  "verifyErc20SwapinTx tx None tokenCfg =
     Returned (parseErc20SwapinTxInput (txData tx) (DepositAddress tokenCfg))"
  by (simp add: verifyErc20SwapinTx_def)

lemma verifyErc20SwapinTx_with_receipt:
  "verifyErc20SwapinTx tx (Some r) tokenCfg = parseErc20SwapinTxLogs (Logs r) tokenCfg"
  by (simp add: verifyErc20SwapinTx_def)

lemma take4_length:
  assumes "take 4 input = [a, b, c, d]"
  shows "4 \<le> length input"
proof -
  have "length (take 4 input) = 4" using assms by simp
  then show ?thesis by simp
qed

lemma parseErc20SwapinTxInput_short:
  "length input < 4 \<Longrightarrow> parseErc20SwapinTxInput input dep = Some ErrTxWithWrongInput"
  by (simp add: parseErc20SwapinTxInput_def)

lemma parseErc20SwapinTxInput_transfer:
  assumes "take 4 input = transferFuncHash"
  shows "parseErc20SwapinTxInput input dep =
           (if EqualFold (Hex (BytesToAddress (GetData input 4 32))) dep then None
            else Some ErrTxWithWrongReceiver)"
proof -
  have "4 \<le> length input"
    using assms take4_length by (simp add: transferFuncHash_def)
  then show ?thesis
    using assms by (simp add: parseErc20SwapinTxInput_def)
qed

lemma parseErc20SwapinTxInput_transferFrom:
  assumes "take 4 input = transferFromFuncHash"
  shows "parseErc20SwapinTxInput input dep =
           (if EqualFold (Hex (BytesToAddress (GetData input 36 32))) dep then None
            else Some ErrTxWithWrongReceiver)"
proof -
  have "4 \<le> length input"
    using assms take4_length by (simp add: transferFromFuncHash_def)
  moreover have "transferFromFuncHash \<noteq> transferFuncHash"
    by (simp add: transferFromFuncHash_def transferFuncHash_def)
  ultimately show ?thesis
    using assms by (simp add: parseErc20SwapinTxInput_def)
qed

lemma parseErc20SwapinTxInput_other:
  "4 \<le> length input \<Longrightarrow> take 4 input \<noteq> transferFuncHash \<Longrightarrow>
     take 4 input \<noteq> transferFromFuncHash \<Longrightarrow>
     parseErc20SwapinTxInput input dep = Some ErrTxFuncHashMismatch"
  by (simp add: parseErc20SwapinTxInput_def)

lemma GetData_inside:
  "start + sz \<le> length data \<Longrightarrow> GetData data start sz = take sz (drop start data)"
  by (simp add: GetData_def Let_def)

text \<open>
  C7. Without a receipt the call data is accepted exactly when it starts with the
  selector of \<open>transfer\<close> and the address in bytes [4,36) is the deposit address, or with
  the selector of \<open>transferFrom\<close> and the address in bytes [36,68) is the deposit address,
  compared without case. Fewer than 4 bytes give wrong-input, another selector gives
  func-hash-mismatch, and another receiver gives wrong-receiver. The 32 bytes read are
  those of the input when it is long enough.
\<close>

theorem C7_swapin_call_data:
  "(parseErc20SwapinTxInput input dep = None \<longleftrightarrow>
      (take 4 input = transferFuncHash
         \<and> EqualFold (Hex (BytesToAddress (GetData input 4 32))) dep)
      \<or> (take 4 input = transferFromFuncHash
         \<and> EqualFold (Hex (BytesToAddress (GetData input 36 32))) dep))
   \<and> (length input < 4 \<longrightarrow> parseErc20SwapinTxInput input dep = Some ErrTxWithWrongInput)
   \<and> (4 \<le> length input \<and> take 4 input \<noteq> transferFuncHash
        \<and> take 4 input \<noteq> transferFromFuncHash \<longrightarrow>
        parseErc20SwapinTxInput input dep = Some ErrTxFuncHashMismatch)
   \<and> (take 4 input = transferFuncHash
        \<and> \<not> EqualFold (Hex (BytesToAddress (GetData input 4 32))) dep \<longrightarrow>
        parseErc20SwapinTxInput input dep = Some ErrTxWithWrongReceiver)
   \<and> (take 4 input = transferFromFuncHash
        \<and> \<not> EqualFold (Hex (BytesToAddress (GetData input 36 32))) dep \<longrightarrow>
        parseErc20SwapinTxInput input dep = Some ErrTxWithWrongReceiver)
   \<and> (36 \<le> length input \<longrightarrow> GetData input 4 32 = take 32 (drop 4 input))
   \<and> (68 \<le> length input \<longrightarrow> GetData input 36 32 = take 32 (drop 36 input))"
proof -
  have differ: "transferFromFuncHash \<noteq> transferFuncHash"
    by (simp add: transferFromFuncHash_def transferFuncHash_def)
  have accept: "parseErc20SwapinTxInput input dep = None \<longleftrightarrow>
      (take 4 input = transferFuncHash
         \<and> EqualFold (Hex (BytesToAddress (GetData input 4 32))) dep)
      \<or> (take 4 input = transferFromFuncHash
         \<and> EqualFold (Hex (BytesToAddress (GetData input 36 32))) dep)"
  proof (cases "length input < 4")
    case True
    then have "take 4 input \<noteq> transferFuncHash" "take 4 input \<noteq> transferFromFuncHash"
      using take4_length [of input] by (auto simp: transferFuncHash_def transferFromFuncHash_def)
    then show ?thesis using True by (simp add: parseErc20SwapinTxInput_short)
  next
    case False
    then have long: "4 \<le> length input" by simp
    consider "take 4 input = transferFuncHash" | "take 4 input = transferFromFuncHash"
      | "take 4 input \<noteq> transferFuncHash" "take 4 input \<noteq> transferFromFuncHash"
      by blast
    then show ?thesis
    proof cases
      case 1
      then show ?thesis using differ by (simp add: parseErc20SwapinTxInput_transfer)
    next
      case 2
      then show ?thesis using differ by (simp add: parseErc20SwapinTxInput_transferFrom)
    next
      case 3
      then show ?thesis using long by (simp add: parseErc20SwapinTxInput_other)
    qed
  qed
  show ?thesis
    using accept parseErc20SwapinTxInput_short [of input dep]
      parseErc20SwapinTxInput_other [of input dep]
      parseErc20SwapinTxInput_transfer [of input dep]
      parseErc20SwapinTxInput_transferFrom [of input dep]
      GetData_inside [of 4 32 input] GetData_inside [of 36 32 input]
    by simp
qed

theorem C7_swapin_call_data_witness:
  "parseErc20SwapinTxInput (transferInput 0x0a) (DepositAddress erc20Rule) = None
   \<and> parseErc20SwapinTxInput (transferFromInput 0x0a) (DepositAddress erc20Rule) = None
   \<and> parseErc20SwapinTxInput (transferInput 0x0f) (DepositAddress erc20Rule)
       = Some ErrTxWithWrongReceiver
   \<and> parseErc20SwapinTxInput [0xa9, 0x05, 0x9c] (DepositAddress erc20Rule)
       = Some ErrTxWithWrongInput
   \<and> parseErc20SwapinTxInput [0x62, 0x8d, 0x6c, 0xba] (DepositAddress erc20Rule)
       = Some ErrTxFuncHashMismatch"
proof -
  have a1: "take 4 (transferInput 0x0a) = transferFuncHash"
    and a2: "EqualFold (Hex (BytesToAddress (GetData (transferInput 0x0a) 4 32)))
               (DepositAddress erc20Rule)"
    by code_simp+
  have b1: "take 4 (transferFromInput 0x0a) = transferFromFuncHash"
    and b2: "EqualFold (Hex (BytesToAddress (GetData (transferFromInput 0x0a) 36 32)))
               (DepositAddress erc20Rule)"
    by code_simp+
  have c1: "take 4 (transferInput 0x0f) = transferFuncHash"
    and c2: "\<not> EqualFold (Hex (BytesToAddress (GetData (transferInput 0x0f) 4 32)))
               (DepositAddress erc20Rule)"
    by code_simp+
  have d: "length [0xa9, 0x05, 0x9c :: 8 word] < 4"
    by simp
  have e: "4 \<le> length [0x62, 0x8d, 0x6c, 0xba :: 8 word]
           \<and> take 4 [0x62, 0x8d, 0x6c, 0xba :: 8 word] \<noteq> transferFuncHash
           \<and> take 4 [0x62, 0x8d, 0x6c, 0xba :: 8 word] \<noteq> transferFromFuncHash"
    by (simp add: transferFuncHash_def transferFromFuncHash_def)
  have r1: "parseErc20SwapinTxInput (transferInput 0x0a) (DepositAddress erc20Rule) = None"
    using C7_swapin_call_data [of "transferInput 0x0a" "DepositAddress erc20Rule"] a1 a2
    by simp
  have r2: "parseErc20SwapinTxInput (transferFromInput 0x0a) (DepositAddress erc20Rule) = None"
    using C7_swapin_call_data [of "transferFromInput 0x0a" "DepositAddress erc20Rule"] b1 b2
    by simp
  have r3: "parseErc20SwapinTxInput (transferInput 0x0f) (DepositAddress erc20Rule)
              = Some ErrTxWithWrongReceiver"
    using C7_swapin_call_data [of "transferInput 0x0f" "DepositAddress erc20Rule"] c1 c2
    by simp
  have r4: "parseErc20SwapinTxInput [0xa9, 0x05, 0x9c] (DepositAddress erc20Rule)
              = Some ErrTxWithWrongInput"
    using C7_swapin_call_data [of "[0xa9, 0x05, 0x9c]" "DepositAddress erc20Rule"] d
    by simp
  have r5: "parseErc20SwapinTxInput [0x62, 0x8d, 0x6c, 0xba] (DepositAddress erc20Rule)
              = Some ErrTxFuncHashMismatch"
    using C7_swapin_call_data [of "[0x62, 0x8d, 0x6c, 0xba]" "DepositAddress erc20Rule"] e
    by simp
  show ?thesis
    using r1 r2 r3 r4 r5 by simp
qed

section \<open>Receipt logs of an ERC-20 swapin\<close>

lemma erc20SwapinLogs_three:
  "erc20SwapinLogs tc dep transferLogTopic 3 seen logs =
     (if \<exists>l \<in> set logs. isTransferLog tc l \<and> EqualFold (logReceiver l) dep then Returned None
      else if seen \<or> (\<exists>l \<in> set logs. isTransferLog tc l) then Returned (Some ErrTxWithWrongReceiver)
      else Returned (Some ErrDepositLogNotFound))"
proof (induction logs arbitrary: seen)
  case Nil
  then show ?case by simp
next
  case (Cons rlog rest)
  show ?case
  proof (cases "isTransferLog tc rlog")
    case True
    then obtain t0 t1 t2 where tops: "Topics rlog = [t0, t1, t2]"
      by (auto simp: isTransferLog_def length_Suc_conv numeral_3_eq_3)
    with True have t0: "t0 = transferLogTopic"
      by (simp add: isTransferLog_def)
    from True have flt: "\<not> Removed rlog" "EqualFold (Hex (Address rlog)) tc" "Data rlog \<noteq> None"
      by (simp_all add: isTransferLog_def)
    show ?thesis
      using True tops t0 flt Cons.IH [of True]
      by (auto simp: logReceiver_def)
  next
    case False
    then have step: "erc20SwapinLogs tc dep transferLogTopic 3 seen (rlog # rest)
        = erc20SwapinLogs tc dep transferLogTopic 3 seen rest"
      by (auto simp: isTransferLog_def length_Suc_conv numeral_3_eq_3 split: list.splits)
    show ?thesis
      using False Cons.IH [of seen] by (simp only: step) auto
  qed
qed

lemma getLogTopicByTxType_swapin: "getLogTopicByTxType TxSwapin = (transferLogTopic, 3)"
  by (simp add: getLogTopicByTxType_def TxSwapin_def ToLower_def toLowerChar_def)

text \<open>
  C5. For a swapin rule, the verification of the receipt logs succeeds exactly when some
  transfer log of the token contract carries the deposit address in its third topic,
  compared without case; when transfer logs exist and none carries it the result is
  wrong-receiver; when there is no transfer log it is deposit-log-not-found.
\<close>

theorem C5_swapin_receipt_logs:
  assumes "TxType tokenCfg = TxSwapin"
  shows "(parseErc20SwapinTxLogs logs tokenCfg = Returned None \<longleftrightarrow>
            (\<exists>l \<in> set logs. isTransferLog (TokenAddress tokenCfg) l
               \<and> EqualFold (logReceiver l) (DepositAddress tokenCfg)))
         \<and> ((\<exists>l \<in> set logs. isTransferLog (TokenAddress tokenCfg) l)
             \<and> \<not> (\<exists>l \<in> set logs. isTransferLog (TokenAddress tokenCfg) l
                     \<and> EqualFold (logReceiver l) (DepositAddress tokenCfg)) \<longrightarrow>
             parseErc20SwapinTxLogs logs tokenCfg = Returned (Some ErrTxWithWrongReceiver))
         \<and> (\<not> (\<exists>l \<in> set logs. isTransferLog (TokenAddress tokenCfg) l) \<longrightarrow>
             parseErc20SwapinTxLogs logs tokenCfg = Returned (Some ErrDepositLogNotFound))"
proof -
  have run: "parseErc20SwapinTxLogs logs tokenCfg =
      erc20SwapinLogs (TokenAddress tokenCfg) (DepositAddress tokenCfg) transferLogTopic 3 False logs"
    using assms by (simp add: parseErc20SwapinTxLogs_def getLogTopicByTxType_swapin)
  show ?thesis
    unfolding run erc20SwapinLogs_three by auto
qed

theorem C5_swapin_receipt_logs_witness:
  "TxType erc20Rule = TxSwapin
   \<and> parseErc20SwapinTxLogs [routerLog [], transferLog 0x0f, transferLog 0x0a] erc20Rule
       = Returned None
   \<and> parseErc20SwapinTxLogs [routerLog [], transferLog 0x0f] erc20Rule
       = Returned (Some ErrTxWithWrongReceiver)
   \<and> parseErc20SwapinTxLogs [routerLog []] erc20Rule = Returned (Some ErrDepositLogNotFound)"
proof -
  have h: "TxType erc20Rule = TxSwapin"
    by (simp add: erc20Rule_def TxSwapin_def)
  have r: "\<not> isTransferLog (TokenAddress erc20Rule) (routerLog [])"
    by (simp add: isTransferLog_def routerLog_def)
  have f: "isTransferLog (TokenAddress erc20Rule) (transferLog 0x0f)"
    and fr: "\<not> EqualFold (logReceiver (transferLog 0x0f)) (DepositAddress erc20Rule)"
    by code_simp+
  have a: "isTransferLog (TokenAddress erc20Rule) (transferLog 0x0a)"
    and ar: "EqualFold (logReceiver (transferLog 0x0a)) (DepositAddress erc20Rule)"
    by code_simp+
  show ?thesis
    using h r f fr a ar
      C5_swapin_receipt_logs [OF h, of "[routerLog [], transferLog 0x0f, transferLog 0x0a]"]
      C5_swapin_receipt_logs [OF h, of "[routerLog [], transferLog 0x0f]"]
      C5_swapin_receipt_logs [OF h, of "[routerLog []]"]
    by simp
qed

section \<open>Router logs without topics\<close>

lemma verifyRouterLogs_total:
  "(snd (verifyRouterLogs tx tokenCfg i logs) = Returned ()) =
     (\<forall>l \<in> set logs. isRouterLog (RouterContract tokenCfg) l \<longrightarrow> Topics l \<noteq> [])"
proof (induction logs arbitrary: i)
  case Nil
  then show ?case by simp
next
  case (Cons rlog rest)
  show ?case
  proof (cases "isRouterLog (RouterContract tokenCfg) rlog")
    case False
    then show ?thesis
      using Cons.IH [of "Suc i"] by (auto simp: isRouterLog_def)
  next
    case True
    then have flt: "\<not> Removed rlog" "EqualFold (Hex (Address rlog)) (RouterContract tokenCfg)"
      by (simp_all add: isRouterLog_def)
    show ?thesis
    proof (cases "Topics rlog")
      case Nil
      then show ?thesis using True flt by auto
    next
      case (Cons t ts)
      then show ?thesis
        using True flt Cons.IH [of "Suc i"]
        by (auto simp: Let_def split: prod.splits)
    qed
  qed
qed

text \<open>
  C8. With a receipt, \<open>verifyAndPostRouterSwapTx\<close> reads the first topic of every log of the
  router contract that is not removed, with no check that there is one: it returns
  exactly when each of these logs has a topic, and panics on the index otherwise. Without
  a receipt it returns at once.
\<close>

theorem C8_router_topics_precondition:
  "(snd (verifyAndPostRouterSwapTx tx (Some r) tokenCfg) = Returned () \<longleftrightarrow>
      (\<forall>l \<in> set (Logs r). isRouterLog (RouterContract tokenCfg) l \<longrightarrow> Topics l \<noteq> []))
   \<and> (snd (verifyAndPostRouterSwapTx tx (Some r) tokenCfg) = Panic \<longleftrightarrow>
      (\<exists>l \<in> set (Logs r). isRouterLog (RouterContract tokenCfg) l \<and> Topics l = []))
   \<and> verifyAndPostRouterSwapTx tx None tokenCfg = ([], Returned ())"
proof -
  have total: "snd (verifyAndPostRouterSwapTx tx (Some r) tokenCfg) = Returned () \<longleftrightarrow>
      (\<forall>l \<in> set (Logs r). isRouterLog (RouterContract tokenCfg) l \<longrightarrow> Topics l \<noteq> [])"
    by (simp add: verifyAndPostRouterSwapTx_def verifyRouterLogs_total)
  have either: "snd (verifyAndPostRouterSwapTx tx (Some r) tokenCfg) = Panic \<longleftrightarrow>
      snd (verifyAndPostRouterSwapTx tx (Some r) tokenCfg) \<noteq> Returned ()"
    by (cases "snd (verifyAndPostRouterSwapTx tx (Some r) tokenCfg)") auto
  show ?thesis
    using total either by (auto simp: verifyAndPostRouterSwapTx_def)
qed

theorem C8_router_topics_precondition_witness:
  "snd (verifyAndPostRouterSwapTx (sampleTx (Some (sampleAddress 0x0c)) [])
          (Some \<lparr>Status = 1, Logs = [transferLog 0x0a, routerLog [routerAnySwapOutTopic]]\<rparr>)
          (routerRule ''routerswap'')) = Returned ()
   \<and> snd (verifyAndPostRouterSwapTx (sampleTx (Some (sampleAddress 0x0c)) [])
          (Some \<lparr>Status = 1, Logs = [routerLog [routerAnySwapOutTopic], routerLog []]\<rparr>)
          (routerRule ''routerswap'')) = Panic"
proof -
  have t: "\<not> isRouterLog (RouterContract (routerRule ''routerswap'')) (transferLog 0x0a)"
    and r: "isRouterLog (RouterContract (routerRule ''routerswap'')) (routerLog [])"
    by code_simp+
  have tops: "Topics (routerLog [routerAnySwapOutTopic]) \<noteq> []" "Topics (routerLog []) = []"
    by (simp_all add: routerLog_def)
  show ?thesis
    using t r tops
      C8_router_topics_precondition [of "sampleTx (Some (sampleAddress 0x0c)) []"
        "\<lparr>Status = 1, Logs = [transferLog 0x0a, routerLog [routerAnySwapOutTopic]]\<rparr>"
        "routerRule ''routerswap''"]
      C8_router_topics_precondition [of "sampleTx (Some (sampleAddress 0x0c)) []"
        "\<lparr>Status = 1, Logs = [routerLog [routerAnySwapOutTopic], routerLog []]\<rparr>"
        "routerRule ''routerswap''"]
    by simp
qed

section \<open>The whitelist of a rule\<close>

lemma checkTxToAddress_other_to:
  assumes "txTo tx = Some a" and "\<not> EqualFold (Hex a) (cmpTxTo tokenCfg)"
  shows "checkTxToAddress scanner tx tokenCfg =
     (if \<not> IsNativeToken tokenCfg \<and> list_ex (\<lambda>w. EqualFold (Hex a) w) (Whitelist tokenCfg)
      then ([GetTxReceipt (txHash tx)],
            case loopGetTxReceipt scanner (txHash tx) of
              None \<Rightarrow> Returned (None, False)
            | Some r \<Rightarrow> Returned (Some r, True))
      else ([], Returned (None, False)))"
proof -
  consider (router) "IsRouterSwap tokenCfg"
    | (native) "\<not> IsRouterSwap tokenCfg" "IsNativeToken tokenCfg"
    | (byContract) "\<not> IsRouterSwap tokenCfg" "\<not> IsNativeToken tokenCfg"
        "CallByContract tokenCfg \<noteq> []"
    | (token) "\<not> IsRouterSwap tokenCfg" "\<not> IsNativeToken tokenCfg"
        "CallByContract tokenCfg = []"
    by blast
  then show ?thesis
  proof cases
    case router
    with assms have "\<not> EqualFold (Hex a) (RouterContract tokenCfg)"
      by (simp add: cmpTxTo_def)
    with router assms(1) show ?thesis
      by (simp add: checkTxToAddress_def split: option.splits)
  next
    case native
    with assms have "\<not> EqualFold (Hex a) (DepositAddress tokenCfg)"
      by (simp add: cmpTxTo_def)
    with native assms(1) show ?thesis
      by (simp add: checkTxToAddress_def)
  next
    case byContract
    with assms have "\<not> EqualFold (Hex a) (CallByContract tokenCfg)"
      by (simp add: cmpTxTo_def)
    with byContract assms(1) show ?thesis
      by (simp add: checkTxToAddress_def split: option.splits)
  next
    case token
    with assms have "\<not> EqualFold (Hex a) (TokenAddress tokenCfg)"
      by (simp add: cmpTxTo_def)
    with token assms(1) show ?thesis
      by (simp add: checkTxToAddress_def split: option.splits)
  qed
qed

text \<open>
  C3, as amended. When the to-address of a transaction differs from the address the rule
  expects and equals an entry of the whitelist, compared without case, then for a rule
  that is not a native-token rule the receipt is requested, and the rule applies with
  that receipt when the request succeeds; for a native-token rule the whitelist is not
  consulted, nothing is requested and the rule does not apply.
\<close>

theorem C3_whitelist_acceptance:
  assumes "txTo tx = Some a"
    and "\<not> EqualFold (Hex a) (cmpTxTo tokenCfg)"
    and "\<exists>w \<in> set (Whitelist tokenCfg). EqualFold (Hex a) w"
  shows "checkTxToAddress scanner tx tokenCfg =
     (if IsNativeToken tokenCfg then ([], Returned (None, False))
      else ([GetTxReceipt (txHash tx)],
            case loopGetTxReceipt scanner (txHash tx) of
              None \<Rightarrow> Returned (None, False)
            | Some r \<Rightarrow> Returned (Some r, True)))"
  using assms(3) checkTxToAddress_other_to [OF assms(1) assms(2), of scanner]
  by (simp add: list_ex_iff)

theorem C3_whitelist_acceptance_witness:
  "txTo (sampleTx (Some (sampleAddress 0x0d)) []) = Some (sampleAddress 0x0d)
   \<and> \<not> EqualFold (Hex (sampleAddress 0x0d)) (cmpTxTo erc20Rule)
   \<and> (\<exists>w \<in> set (Whitelist erc20Rule). EqualFold (Hex (sampleAddress 0x0d)) w)
   \<and> checkTxToAddress (sampleScanner []) (sampleTx (Some (sampleAddress 0x0d)) []) erc20Rule
       = ([GetTxReceipt 0x1234], Returned (Some \<lparr>Status = 1, Logs = []\<rparr>, True))"
proof -
  have h1: "txTo (sampleTx (Some (sampleAddress 0x0d)) []) = Some (sampleAddress 0x0d)"
    by (simp add: sampleTx_def)
  have h2: "\<not> EqualFold (Hex (sampleAddress 0x0d)) (cmpTxTo erc20Rule)"
    by code_simp
  have h3: "\<exists>w \<in> set (Whitelist erc20Rule). EqualFold (Hex (sampleAddress 0x0d)) w"
    by code_simp
  have n: "\<not> IsNativeToken erc20Rule"
    by (simp add: IsNativeToken_def erc20Rule_def)
  have r: "loopGetTxReceipt (sampleScanner []) (txHash (sampleTx (Some (sampleAddress 0x0d)) []))
             = Some \<lparr>Status = 1, Logs = []\<rparr>"
    by code_simp
  have h: "txHash (sampleTx (Some (sampleAddress 0x0d)) []) = 0x1234"
    by (simp add: sampleTx_def)
  show ?thesis
    using h1 h2 h3 C3_whitelist_acceptance [OF h1 h2 h3, of "sampleScanner []"] n r h
    by simp
qed

text \<open>
  C3 as stated fails on a native-token rule: the to-address of the transaction is in the
  whitelist of the rule and differs from its deposit address, the node would deliver the
  receipt, and yet the rule does not apply and no receipt is requested.
\<close>

theorem C3_native_rule_ignores_whitelist:
  "Whitelist (nativeRule ''pairA'' [''0x000000000000000000000000000000000000000D'']) \<noteq> []
   \<and> txTo (sampleTx (Some (sampleAddress 0x0d)) []) = Some (sampleAddress 0x0d)
   \<and> \<not> EqualFold (Hex (sampleAddress 0x0d))
         (cmpTxTo (nativeRule ''pairA'' [''0x000000000000000000000000000000000000000D'']))
   \<and> EqualFold (Hex (sampleAddress 0x0d))
         (Whitelist (nativeRule ''pairA'' [''0x000000000000000000000000000000000000000D'']) ! 0)
   \<and> checkTxToAddress (sampleScanner []) (sampleTx (Some (sampleAddress 0x0d)) [])
         (nativeRule ''pairA'' [''0x000000000000000000000000000000000000000D''])
       = ([], Returned (None, False))"
  by code_simp

section \<open>The loop over the rules\<close>

lemma scanTokens_offered:
  "scanTokens scanner tx Tokens =
     (concat (map (\<lambda>c. fst (verifyTransaction scanner tx c)) (offeredRules scanner tx Tokens)),
      if list_ex (\<lambda>c. snd (verifyTransaction scanner tx c) = Panic) Tokens
      then Panic else Returned ())"
proof (induction Tokens)
  case Nil
  then show ?case by simp
next
  case (Cons c rest)
  obtain es res where v: "verifyTransaction scanner tx c = (es, res)"
    by (cases "verifyTransaction scanner tx c")
  show ?case
  proof (cases res)
    case Panic
    with v show ?thesis by simp
  next
    case (Returned e)
    with v Cons.IH show ?thesis by simp
  qed
qed

lemma offeredRules_all:
  "\<not> list_ex (\<lambda>c. snd (verifyTransaction scanner tx c) = Panic) Tokens \<Longrightarrow>
     offeredRules scanner tx Tokens = Tokens"
  by (induction Tokens) auto

lemma offeredRules_prefix:
  "take (length (offeredRules scanner tx Tokens)) Tokens = offeredRules scanner tx Tokens"
  by (induction Tokens) auto

text \<open>
  C4, as amended. A transaction with a to-address is offered to the configured rules in
  the order of the configuration, whether or not an earlier rule matched: a match never
  ends the loop. The events of the scan are those of the first rule, then those of the
  second, and so on. Only a run-time panic inside the verification of a rule ends the
  scan, and the rules after that one are not offered; when no verification panics, every
  rule is offered and the scan returns.
\<close>

theorem C4_every_rule_is_tried:
  assumes "txTo tx \<noteq> None"
  shows "scanTransaction scanner Tokens tx =
       (concat (map (\<lambda>c. fst (verifyTransaction scanner tx c)) (offeredRules scanner tx Tokens)),
        if list_ex (\<lambda>c. snd (verifyTransaction scanner tx c) = Panic) Tokens
        then Panic else Returned ())
     \<and> take (length (offeredRules scanner tx Tokens)) Tokens = offeredRules scanner tx Tokens
     \<and> (\<not> list_ex (\<lambda>c. snd (verifyTransaction scanner tx c) = Panic) Tokens \<longrightarrow>
          offeredRules scanner tx Tokens = Tokens
          \<and> scanTransaction scanner Tokens tx =
              (concat (map (\<lambda>c. fst (verifyTransaction scanner tx c)) Tokens), Returned ()))"
proof -
  have run: "scanTransaction scanner Tokens tx = scanTokens scanner tx Tokens"
    using assms by (auto simp: scanTransaction_def)
  show ?thesis
    unfolding run
    using scanTokens_offered [of scanner tx Tokens] offeredRules_all [of scanner tx Tokens]
      offeredRules_prefix [of scanner tx Tokens]
    by simp
qed

theorem C4_every_rule_is_tried_witness:
  "txTo (sampleTx (Some (sampleAddress 0x0a)) []) \<noteq> None
   \<and> scanTransaction (sampleScanner []) [nativeRule ''pairA'' [], erc20Rule, nativeRule ''pairB'' []]
        (sampleTx (Some (sampleAddress 0x0a)) [])
       = (postBridgeSwap (HashHex 0x1234) (nativeRule ''pairA'' [])
            @ postBridgeSwap (HashHex 0x1234) (nativeRule ''pairB'' []),
          Returned ())
   \<and> txTo (sampleTx (Some (sampleAddress 0x0c)) []) \<noteq> None
   \<and> scanTransaction (sampleScanner [routerLog []])
        [routerRule ''routerswap'', routerRule ''gasswap'']
        (sampleTx (Some (sampleAddress 0x0c)) [])
       = ([GetTxReceipt 0x1234], Panic)"
proof -
  have h1: "txTo (sampleTx (Some (sampleAddress 0x0a)) []) \<noteq> None"
    by (simp add: sampleTx_def)
  have n1: "\<not> list_ex (\<lambda>c. snd (verifyTransaction (sampleScanner [])
                                 (sampleTx (Some (sampleAddress 0x0a)) []) c) = Panic)
               [nativeRule ''pairA'' [], erc20Rule, nativeRule ''pairB'' []]"
    by code_simp
  have e1: "concat (map (\<lambda>c. fst (verifyTransaction (sampleScanner [])
                                (sampleTx (Some (sampleAddress 0x0a)) []) c))
             [nativeRule ''pairA'' [], erc20Rule, nativeRule ''pairB'' []])
           = postBridgeSwap (HashHex 0x1234) (nativeRule ''pairA'' [])
               @ postBridgeSwap (HashHex 0x1234) (nativeRule ''pairB'' [])"
    by code_simp
  have r1: "scanTransaction (sampleScanner [])
              [nativeRule ''pairA'' [], erc20Rule, nativeRule ''pairB'' []]
              (sampleTx (Some (sampleAddress 0x0a)) [])
            = (postBridgeSwap (HashHex 0x1234) (nativeRule ''pairA'' [])
                 @ postBridgeSwap (HashHex 0x1234) (nativeRule ''pairB'' []),
               Returned ())"
    using C4_every_rule_is_tried [OF h1, of "sampleScanner []"
        "[nativeRule ''pairA'' [], erc20Rule, nativeRule ''pairB'' []]"] n1 e1
    by simp
  have h2: "txTo (sampleTx (Some (sampleAddress 0x0c)) []) \<noteq> None"
    by (simp add: sampleTx_def)
  have p2: "list_ex (\<lambda>c. snd (verifyTransaction (sampleScanner [routerLog []])
                              (sampleTx (Some (sampleAddress 0x0c)) []) c) = Panic)
              [routerRule ''routerswap'', routerRule ''gasswap'']"
    by code_simp
  have e2: "concat (map (\<lambda>c. fst (verifyTransaction (sampleScanner [routerLog []])
                                (sampleTx (Some (sampleAddress 0x0c)) []) c))
             (offeredRules (sampleScanner [routerLog []])
                (sampleTx (Some (sampleAddress 0x0c)) [])
                [routerRule ''routerswap'', routerRule ''gasswap'']))
           = [GetTxReceipt 0x1234]"
    by code_simp
  have r2: "scanTransaction (sampleScanner [routerLog []])
              [routerRule ''routerswap'', routerRule ''gasswap'']
              (sampleTx (Some (sampleAddress 0x0c)) [])
            = ([GetTxReceipt 0x1234], Panic)"
    using C4_every_rule_is_tried [OF h2, of "sampleScanner [routerLog []]"
        "[routerRule ''routerswap'', routerRule ''gasswap'']"] p2 e2
    by simp
  show ?thesis
    using h1 r1 h2 r2 by simp
qed

text \<open>
  C4 as stated fails on two native-token rules with the same deposit address: the first
  rule matches the transaction and posts its record, and the second rule is still tried
  and posts its own.
\<close>

theorem C4_second_rule_tried_after_match:
  "verifyTransaction (sampleScanner []) (sampleTx (Some (sampleAddress 0x0a)) [])
       (nativeRule ''pairA'' [])
     = (postBridgeSwap (HashHex 0x1234) (nativeRule ''pairA'' []), Returned None)
   \<and> scanTransaction (sampleScanner []) [nativeRule ''pairA'' [], nativeRule ''pairB'' []]
        (sampleTx (Some (sampleAddress 0x0a)) [])
     = (postBridgeSwap (HashHex 0x1234) (nativeRule ''pairA'' [])
          @ postBridgeSwap (HashHex 0x1234) (nativeRule ''pairB'' []),
        Returned ())
   \<and> postBridgeSwap (HashHex 0x1234) (nativeRule ''pairB'' []) \<noteq> []"
  by code_simp

section \<open>Destinations of a dispatched record\<close>

lemma postSwapPostLoop_flags:
  "postSwapPostLoop rpcPost left i (a, b) =
     (a \<or> list_ex transientError (attemptErrors rpcPost left i),
      b \<or> list_ex transientError (attemptErrors rpcPost left i))"
proof (induction left arbitrary: i a b)
  case 0
  then show ?case by simp
next
  case (Suc left)
  show ?case
  proof (cases "rpcPost i")
    case None
    then show ?thesis by simp
  next
    case (Some e)
    then show ?thesis
      using Suc.IH [of "Suc i" True True] Suc.IH [of "Suc i" a b]
      by (auto simp: transientError_def)
  qed
qed

lemma postSwapPost_effects:
  "postSwapPost scanner mongodbEnable chain' now rpcPost swap =
     (if list_ex transientError (attemptErrors rpcPost (nat (rpcRetryCount scanner)) 0)
      then RingAdd swap # (if mongodbEnable then [AddSwapPending (toMgoSwap chain' now swap)] else [])
      else (if mongodbEnable then [AddSwap (toMgoSwap chain' now swap)] else []))"
  by (simp add: postSwapPost_def postSwapPostLoop_flags addMongodbSwapPendingPost_def
      addMongodbSwapPost_def)

lemma attemptErrors_member:
  "j < left \<Longrightarrow> \<forall>k < j. rpcPost (i + k) \<noteq> None \<Longrightarrow> rpcPost (i + j) = Some e \<Longrightarrow>
     e \<in> set (attemptErrors rpcPost left i)"
proof (induction left arbitrary: i j)
  case 0
  then show ?case by simp
next
  case (Suc left)
  show ?case
  proof (cases j)
    case 0
    with Suc.prems show ?thesis by simp
  next
    case (Suc j')
    with Suc.prems obtain e0 where e0: "rpcPost i = Some e0"
      by (metis add.right_neutral not_None_eq zero_less_Suc)
    have "e \<in> set (attemptErrors rpcPost left (Suc i))"
    proof (rule Suc.IH [of j' "Suc i"])
      show "j' < left" using Suc.prems(1) Suc by simp
      show "\<forall>k<j'. rpcPost (Suc i + k) \<noteq> None"
        using Suc.prems(2) Suc by (metis Suc_less_eq add_Suc_shift)
      show "rpcPost (Suc i + j') = Some e"
        using Suc.prems(3) Suc by simp
    qed
    with e0 show ?thesis by simp
  qed
qed

text \<open>
  C9. One call of \<open>postSwapPost\<close> writes to one class of destination. When an attempt saw
  a transient error the record goes to the retry ring and, mongodb being enabled, to the
  pending collection; otherwise, mongodb being enabled, it goes to the registered
  collection. In no case does a call write to both the pending and the registered
  collection.
\<close>

theorem C9_one_destination_class:
  "postSwapPost scanner mongodbEnable chain' now rpcPost swap =
     (if list_ex transientError (attemptErrors rpcPost (nat (rpcRetryCount scanner)) 0)
      then RingAdd swap # (if mongodbEnable then [AddSwapPending (toMgoSwap chain' now swap)] else [])
      else (if mongodbEnable then [AddSwap (toMgoSwap chain' now swap)] else []))
   \<and> \<not> (\<exists>p r. AddSwapPending p \<in> set (postSwapPost scanner mongodbEnable chain' now rpcPost swap)
             \<and> AddSwap r \<in> set (postSwapPost scanner mongodbEnable chain' now rpcPost swap))"
  by (simp add: postSwapPost_effects)

theorem C9_one_destination_class_witness:
  "postSwapPost (sampleScanner []) True ''eth'' 0 refusedTwice sampleSwap
     = [RingAdd sampleSwap, AddSwapPending (toMgoSwap ''eth'' 0 sampleSwap)]
   \<and> postSwapPost (sampleScanner []) True ''eth'' 0 postOk sampleSwap
     = [AddSwap (toMgoSwap ''eth'' 0 sampleSwap)]
   \<and> postSwapPost (sampleScanner []) False ''eth'' 0 refusedTwice sampleSwap = [RingAdd sampleSwap]
   \<and> postSwapPost (sampleScanner []) False ''eth'' 0 postOk sampleSwap = []"
proof -
  have t: "list_ex transientError
             (attemptErrors refusedTwice (nat (rpcRetryCount (sampleScanner []))) 0)"
    by code_simp
  have s: "\<not> list_ex transientError
             (attemptErrors postOk (nat (rpcRetryCount (sampleScanner []))) 0)"
    by code_simp
  show ?thesis
    using t s
      C9_one_destination_class [of "sampleScanner []" True "''eth''" 0 refusedTwice sampleSwap]
      C9_one_destination_class [of "sampleScanner []" True "''eth''" 0 postOk sampleSwap]
      C9_one_destination_class [of "sampleScanner []" False "''eth''" 0 refusedTwice sampleSwap]
      C9_one_destination_class [of "sampleScanner []" False "''eth''" 0 postOk sampleSwap]
    by simp
qed

text \<open>
  An attempt that sees a transient error marks the record for the retry ring and the
  pending collection, and a later success does not take the mark back.
\<close>

lemma postSwapPost_transient_then_success:
  assumes "k < nat (rpcRetryCount scanner)"
    and "\<forall>m < k. rpcPost m \<noteq> None"
    and "rpcPost k = None"
    and "j < k" and "rpcPost j = Some e" and "transientError e"
  shows "postSwapPost scanner mongodbEnable chain' now rpcPost swap =
           RingAdd swap # (if mongodbEnable then [AddSwapPending (toMgoSwap chain' now swap)] else [])"
proof -
  have "e \<in> set (attemptErrors rpcPost (nat (rpcRetryCount scanner)) 0)"
    using assms(1,2,4,5) attemptErrors_member [of j "nat (rpcRetryCount scanner)" rpcPost 0 e]
    by simp
  then have "list_ex transientError (attemptErrors rpcPost (nat (rpcRetryCount scanner)) 0)"
    using assms(6) by (auto simp: list_ex_iff)
  then show ?thesis
    by (simp add: postSwapPost_effects)
qed

text \<open>
  C1, at the failing input. The server refuses the connection on the first two attempts
  and the third attempt succeeds, within the 3 retries: \<open>postSwapPost\<close> puts the record
  into the retry ring and into the pending collection, and does not write the registered
  collection.
\<close>

theorem C1_success_after_refusals_is_queued:
  "rpcRetryCount (sampleScanner []) = 3
   \<and> refusedTwice 0 = Some connRefused \<and> refusedTwice 1 = Some connRefused
   \<and> refusedTwice 2 = None
   \<and> Contains (Error connRefused) errConnectionRefused
   \<and> postSwapPost (sampleScanner []) True ''eth'' 0 refusedTwice sampleSwap
       = [RingAdd sampleSwap, AddSwapPending (toMgoSwap ''eth'' 0 sampleSwap)]"
  by code_simp

section \<open>Router records\<close>

lemma verifyRouterLogs_records:
  assumes "\<forall>l \<in> set logs. isRouterLog (RouterContract tokenCfg) l \<longrightarrow> Topics l \<noteq> []"
  shows "verifyRouterLogs tx tokenCfg i logs =
     (concat (map (\<lambda>(k, l). if isRouterLog (RouterContract tokenCfg) l
                                 \<and> inTopicSet tokenCfg (hd (Topics l))
                              then postRouterSwap (HashHex (txHash tx)) k tokenCfg else [])
                (enumerate i logs)),
      Returned ())"
  using assms
proof (induction logs arbitrary: i)
  case Nil
  then show ?case by simp
next
  case (Cons rlog rest)
  then have IH: "verifyRouterLogs tx tokenCfg (Suc i) rest =
     (concat (map (\<lambda>(k, l). if isRouterLog (RouterContract tokenCfg) l
                                 \<and> inTopicSet tokenCfg (hd (Topics l))
                              then postRouterSwap (HashHex (txHash tx)) k tokenCfg else [])
                (enumerate (Suc i) rest)),
      Returned ())"
    by simp
  show ?case
  proof (cases "isRouterLog (RouterContract tokenCfg) rlog")
    case False
    then show ?thesis
      using IH by (auto simp: isRouterLog_def)
  next
    case True
    with Cons.prems obtain t ts where tops: "Topics rlog = t # ts"
      by (cases "Topics rlog") auto
    from True have flt: "\<not> Removed rlog" "EqualFold (Hex (Address rlog)) (RouterContract tokenCfg)"
      by (simp_all add: isRouterLog_def)
    show ?thesis
      using True tops flt IH by (simp add: inTopicSet_def Let_def)
  qed
qed

text \<open>
  For a rule of kind router-erc20 or router-gas whose transaction is sent to the router
  contract and whose receipt is delivered, \<open>verifyTransaction\<close> requests the receipt and
  posts one router record for each log of the router contract that is not removed and
  whose first topic is in the topic set, with the index of that log.
\<close>

lemma verifyTransaction_router_records:
  assumes "IsRouterSwap tokenCfg" and "txTo tx = Some a"
    and "EqualFold (Hex a) (RouterContract tokenCfg)"
    and "loopGetTxReceipt scanner (txHash tx) = Some r"
    and "\<forall>l \<in> set (Logs r). isRouterLog (RouterContract tokenCfg) l \<longrightarrow> Topics l \<noteq> []"
  shows "verifyTransaction scanner tx tokenCfg =
     (GetTxReceipt (txHash tx) #
      concat (map (\<lambda>(k, l). if isRouterLog (RouterContract tokenCfg) l
                                 \<and> inTopicSet tokenCfg (hd (Topics l))
                              then postRouterSwap (HashHex (txHash tx)) k tokenCfg else [])
                (enumerate 0 (Logs r))),
      Returned None)"
proof -
  have chk: "checkTxToAddress scanner tx tokenCfg =
      ([GetTxReceipt (txHash tx)], Returned (Some r, True))"
    using assms(1-4) by (simp add: checkTxToAddress_def)
  show ?thesis
    using assms(1) verifyRouterLogs_records [OF assms(5), of tx 0]
    by (simp add: verifyTransaction_def chk verifyAndPostRouterSwapTx_def)
qed

text \<open>
  C2, at the failing input. A rule of kind router-nft is not a router rule for
  \<open>verifyTransaction\<close>: a transaction sent to its router contract, whose receipt holds an
  \<open>NFT721SwapOut\<close> log of that contract, is not accepted and no record is posted, while
  the same transaction with an \<open>AnySwapOut\<close> log under a router-erc20 rule posts the
  record of log 0. The same holds for a rule of kind router-anycall.
\<close>

theorem C2_nft_and_anycall_rules_post_nothing:
  "IsRouterNFTSwap (routerRule ''nftswap'')
   \<and> isRouterLog (RouterContract (routerRule ''nftswap'')) (routerLog [logNFT721SwapOutTopic])
   \<and> inTopicSet (routerRule ''nftswap'') (hd (Topics (routerLog [logNFT721SwapOutTopic])))
   \<and> verifyTransaction (sampleScanner [routerLog [logNFT721SwapOutTopic]])
        (sampleTx (Some (sampleAddress 0x0c)) []) (routerRule ''nftswap'')
      = ([], Returned None)
   \<and> IsRouterAnycallSwap (routerRule ''anycallswap'')
   \<and> inTopicSet (routerRule ''anycallswap'') (hd (Topics (routerLog [logAnycallSwapOutTopic])))
   \<and> verifyTransaction (sampleScanner [routerLog [logAnycallSwapOutTopic]])
        (sampleTx (Some (sampleAddress 0x0c)) []) (routerRule ''anycallswap'')
      = ([], Returned None)
   \<and> verifyTransaction (sampleScanner [routerLog [routerAnySwapOutTopic]])
        (sampleTx (Some (sampleAddress 0x0c)) []) (routerRule ''routerswap'')
      = (GetTxReceipt 0x1234 # postRouterSwap (HashHex 0x1234) 0 (routerRule ''routerswap''),
         Returned None)"
  by code_simp

end
